theory Spec2Isabelle
  imports Main
begin

section \<open>Canvas event listeners: \<open>initZoomAndPan\<close>\<close>

text \<open>
  The canvas front end registers its input handlers in \<open>initZoomAndPan\<close>. The handlers
  are instance fields holding arrow functions, so each is one fixed function object and
  a later \<open>removeEventListener\<close> with the same field finds the listener that
  \<open>addEventListener\<close> stored.

  An event target keeps an ordered list of listeners. \<open>addEventListener\<close> appends the
  pair of event type and callback unless the same pair is already in the list;
  \<open>removeEventListener\<close> takes the pair out of the list when it is there.
\<close>

datatype handler =
    wheelHandler | touchStartHandler | touchMoveHandler | touchEndHandler
  | mouseDownHandler | mouseMoveHandler | mouseUpHandler

type_synonym listener = "string \<times> handler"

type_synonym canvas = "listener list"

definition addEventListener :: "canvas \<Rightarrow> string \<Rightarrow> handler \<Rightarrow> canvas" where
  "addEventListener c t h = (if (t, h) \<in> set c then c else c @ [(t, h)])"

definition removeEventListener :: "canvas \<Rightarrow> string \<Rightarrow> handler \<Rightarrow> canvas" where
  "removeEventListener c t h = remove1 (t, h) c"

text \<open>The handlers that an event of type \<open>t\<close> is dispatched to, in registration order.\<close>

definition dispatchEvent :: "canvas \<Rightarrow> string \<Rightarrow> handler list" where
  "dispatchEvent c t = map snd (filter (\<lambda>l. fst l = t) c)"

text \<open>The body of \<open>initZoomAndPan\<close>, statement by statement.\<close>

definition initZoomAndPan :: "canvas \<Rightarrow> canvas" where
  "initZoomAndPan c0 =
     (let c1 = addEventListener c0 ''wheel'' wheelHandler;
          c2 = addEventListener c1 ''touchstart'' touchStartHandler;
          c3 = addEventListener c2 ''touchmove'' touchMoveHandler;
          c4 = removeEventListener c3 ''touchstart'' touchStartHandler;
          c5 = removeEventListener c4 ''touchmove'' touchMoveHandler;
          c6 = removeEventListener c5 ''touchend'' touchEndHandler;
          c7 = addEventListener c6 ''touchend'' touchEndHandler
      in c7)"

section \<open>Shape identifiers: \<open>generateShapeId\<close>\<close>

text \<open>
  \<open>generateShapeId\<close> builds the template string
  \<open>shape_${Date.now()}_${Math.random().toString(36).substr(2, 9)}\<close>.
  \<open>Date.now()\<close> is a whole number of milliseconds (at most \<open>8.64e15\<close>, so its
  string form is its plain decimal numeral). The model takes the clock reading and the
  text \<open>Math.random().toString(36)\<close> as inputs. That text is \<open>0\<close> when the random
  number is zero and otherwise \<open>0.\<close> followed by the base-36 digits of the fraction:
  one half is \<open>0.i\<close>, one eighth is \<open>0.4i\<close>.
\<close>

text \<open>The numeral character of a digit below ten, and the decimal numeral of a number.\<close>

definition digit :: "nat \<Rightarrow> char" where
  "digit d = ''0123456789'' ! d"

function decimal :: "nat \<Rightarrow> string" where
  "decimal n = (if n < 10 then [digit n] else decimal (n div 10) @ [digit (n mod 10)])"
  by pat_completeness auto
termination
  by (relation "measure (\<lambda>n. n)") auto

declare decimal.simps [simp del]

text \<open>\<open>String.prototype.substr(start, length)\<close> for a start that is not negative.\<close>

definition substr :: "string \<Rightarrow> nat \<Rightarrow> nat \<Rightarrow> string" where
  "substr s start len = take len (drop start s)"

definition generateShapeId :: "nat \<Rightarrow> string \<Rightarrow> string" where
  "generateShapeId now r = ''shape_'' @ decimal now @ ''_'' @ substr r 2 9"

definition base36_digit :: "char \<Rightarrow> bool" where
  "base36_digit ch =
     (let k = (of_char ch :: nat) in (48 \<le> k \<and> k \<le> 57) \<or> (97 \<le> k \<and> k \<le> 122))"

text \<open>The texts that \<open>toString(36)\<close> yields for a number in the interval from 0 to 1.\<close>

definition radix36_fraction :: "string \<Rightarrow> bool" where
  "radix36_fraction r =
     (r = ''0'' \<or> (take 2 r = ''0.'' \<and> drop 2 r \<noteq> [] \<and> list_all base36_digit (drop 2 r)))"

section \<open>The relay: connections, rooms and the store\<close>

text \<open>
  The message relay keeps a module-level array \<open>users\<close> with one entry per connection:
  the socket, the rooms the connection has joined and the identity resolved when it
  connected. Drawing operations are rows of the \<open>Chat\<close> table, reached through
  \<open>prismaClient.chat\<close>. A socket is known by its object identity (\<open>sock\<close>) and
  carries the \<open>readyState\<close> of its transport.
\<close>

datatype ready_state = CONNECTING | OPEN | CLOSING | CLOSED

record WebSocket =
  sock :: nat
  readyState :: ready_state

record user =
  ws :: WebSocket
  rooms :: "string list"
  userId :: string

record chat_row =
  chat_id :: nat
  chat_roomId :: int
  chat_message :: string
  chat_userId :: string

text \<open>
  The store: the rows of the table in insertion order, the next serial id, and whether
  the next call reaches the database. A call that does not reach it is rejected. The
  creation time, which the table fills in by itself, plays no part and is left out of
  the rows.
\<close>

record database =
  chat_rows :: "chat_row list"
  nextId :: nat
  available :: bool

datatype prisma_error = ValidationError | StoreUnavailable

text \<open>
  The JSON envelope of the transport, one constructor per \<open>type\<close> tag, with the fields
  that the tag carries: \<open>chat message roomId\<close>, \<open>delete_shape shapeId roomId\<close>,
  and \<open>join_room\<close>, \<open>leave_room\<close>, \<open>clear_canvas\<close> with the \<open>roomId\<close>.

  Modelled from the spec: \<open>operation_failed\<close>, the operation-failed notice that
  reports a failure of the store to the originating connection. No message of the
  sources has this tag, and the spec names no field of it.
\<close>

datatype envelope =
    join_room string
  | leave_room string
  | chat string string
  | delete_shape string string
  | clear_canvas string
  | operation_failed

record relay_state =
  users :: "user list"
  prismaClient :: database

text \<open>
  What handling one message does: the state it leaves, the frames it handed to
  \<open>ws.send\<close> in order, each with the socket it was sent on, and the error of the store
  call when the handler's promise was rejected.
\<close>

record reaction =
  after :: relay_state
  sent :: "(WebSocket \<times> envelope) list"
  failure :: "prisma_error option"

subsection \<open>The store calls\<close>

text \<open>
  The handlers pass \<open>Number(roomId)\<close> to the store, whose \<open>roomId\<close> column is an
  integer. The reading of a room identifier as a number is an input of the model,
  \<open>toNumber\<close>: it gives the integer, or nothing where \<open>Number\<close> yields \<open>NaN\<close> or a
  number that is no integer, which the store call refuses.
\<close>

definition chat_create ::
  "database \<Rightarrow> int option \<Rightarrow> string \<Rightarrow> string \<Rightarrow> prisma_error + database" where
  "chat_create d rid msg uid =
     (case rid of
        None \<Rightarrow> Inl ValidationError
      | Some n \<Rightarrow>
          if available d
          then Inr (d\<lparr>chat_rows := chat_rows d @
                      [\<lparr>chat_id = nextId d, chat_roomId = n,
                        chat_message = msg, chat_userId = uid\<rparr>],
                    nextId := nextId d + 1\<rparr>)
          else Inl StoreUnavailable)"



datatype like_token = AnySequence | AnyCharacter | Literal char

definition like_token_of :: "char \<Rightarrow> like_token" where
  "like_token_of p =
     (if p = CHR ''%'' then AnySequence else if p = CHR ''_'' then AnyCharacter else Literal p)"

fun like_tokens :: "string \<Rightarrow> like_token list option" where
  "like_tokens [] = Some []"
| "like_tokens [p] = (if p = CHR 0x5C then None else Some [like_token_of p])"
| "like_tokens (p # q # qs) =
     (if p = CHR 0x5C then map_option (Cons (Literal q)) (like_tokens qs)
      else map_option (Cons (like_token_of p)) (like_tokens (q # qs)))"

fun like_match :: "like_token list \<Rightarrow> string \<Rightarrow> bool" where
  "like_match [] s = (s = [])"
| "like_match (AnySequence # ts) [] = like_match ts []"
| "like_match (AnySequence # ts) (c # cs) =
     (like_match ts (c # cs) \<or> like_match (AnySequence # ts) cs)"
| "like_match (AnyCharacter # ts) [] = False"
| "like_match (AnyCharacter # ts) (c # cs) = like_match ts cs"
| "like_match (Literal p # ts) [] = False"
| "like_match (Literal p # ts) (c # cs) = (c = p \<and> like_match ts cs)"

definition like :: "string \<Rightarrow> string \<Rightarrow> bool" where
  "like s pat = (case like_tokens pat of None \<Rightarrow> False | Some ts \<Rightarrow> like_match ts s)"

definition wildcard_free :: "string \<Rightarrow> bool" where
  "wildcard_free s = list_all (\<lambda>c. c \<noteq> CHR ''%'' \<and> c \<noteq> CHR ''_'' \<and> c \<noteq> CHR 0x5C) s"

text \<open>
  \<open>chat.deleteMany\<close> with a \<open>where\<close> clause on \<open>roomId\<close> and, when given, on the
  message text: the rows that satisfy the clause go, the others stay in order.
\<close>

definition chat_deleteMany ::
  "database \<Rightarrow> int option \<Rightarrow> string option \<Rightarrow> prisma_error + database" where
  "chat_deleteMany d rid pat =
     (case rid of
        None \<Rightarrow> Inl ValidationError
      | Some n \<Rightarrow>
          if available d
          then Inr (d\<lparr>chat_rows :=
                      filter (\<lambda>r. \<not> (chat_roomId r = n \<and>
                                      (case pat of None \<Rightarrow> True
                                       | Some p \<Rightarrow> like (chat_message r) (''%'' @ p @ ''%''))))
                        (chat_rows d)\<rparr>)
          else Inl StoreUnavailable)"

subsection \<open>The message handlers\<close>

text \<open>\<open>users.filter(user => user.rooms.includes(roomId))\<close>\<close>

definition usersInRoom :: "user list \<Rightarrow> string \<Rightarrow> user list" where
  "usersInRoom us roomId = filter (\<lambda>u. roomId \<in> set (rooms u)) us"

text \<open>The membership set of a room: the sockets of the entries that hold the room.\<close>

definition membersOf :: "user list \<Rightarrow> string \<Rightarrow> WebSocket set" where
  "membersOf us roomId = ws ` set (usersInRoom us roomId)"

text \<open>
  The \<open>chat\<close> branch of the message handler. It awaits \<open>chat.create\<close>; a rejected call
  ends the handler there. Then it filters the users of the room and sends the frame on
  every socket whose \<open>readyState\<close> is \<open>OPEN\<close>. \<open>uid\<close> is the identity of the sending
  connection (\<open>getUserId(ws)\<close>).
\<close>

definition chat_handler ::
  "(string \<Rightarrow> int option) \<Rightarrow> relay_state \<Rightarrow> string \<Rightarrow> string \<Rightarrow> string \<Rightarrow> reaction" where
  "chat_handler toNumber st uid message roomId =
     (case chat_create (prismaClient st) (toNumber roomId) message uid of
        Inl e \<Rightarrow> \<lparr>after = st, sent = [], failure = Some e\<rparr>
      | Inr d \<Rightarrow>
          \<lparr>after = st\<lparr>prismaClient := d\<rparr>,
           sent = concat (map (\<lambda>u. if readyState (ws u) = OPEN
                                    then [(ws u, chat message roomId)] else [])
                            (usersInRoom (users st) roomId)),
           failure = None\<rparr>)"

text \<open>
  The \<open>delete_shape\<close> branch. It awaits \<open>chat.deleteMany\<close> with the pattern
  \<open>"id":"${shapeId}"\<close> and then sends the directive on the socket of every user of the
  room; this loop has no test of \<open>readyState\<close>. \<open>usersInRoom\<close> is the filter of the
  \<open>chat\<close> branch.
\<close>

definition delete_shape_handler ::
  "(string \<Rightarrow> int option) \<Rightarrow> relay_state \<Rightarrow> string \<Rightarrow> string \<Rightarrow> reaction" where
  \<open>delete_shape_handler toNumber st shapeId roomId =
     (case chat_deleteMany (prismaClient st) (toNumber roomId)
             (Some (''"id":"'' @ shapeId @ ''"'')) of
        Inl e \<Rightarrow> \<lparr>after = st, sent = [], failure = Some e\<rparr>
      | Inr d \<Rightarrow>
          \<lparr>after = st\<lparr>prismaClient := d\<rparr>,
           sent = map (\<lambda>u. (ws u, delete_shape shapeId roomId))
                    (usersInRoom (users st) roomId),
           failure = None\<rparr>)\<close>

text \<open>
  Modelled from the spec: the Broadcast Engine, which the sources do not have as a
  function of its own. \<open>broadcast(roomId, message)\<close> sends the message to every
  connection in the room's membership whose transport is open and skips the others.
\<close>

definition broadcast :: "user list \<Rightarrow> string \<Rightarrow> envelope \<Rightarrow> (WebSocket \<times> envelope) list" where
  "broadcast us roomId msg =
     map (\<lambda>u. (ws u, msg)) (filter (\<lambda>u. readyState (ws u) = OPEN) (usersInRoom us roomId))"

text \<open>
  Modelled from the spec: the \<open>clear_canvas\<close> branch of the message handler, which is
  not among the sources. It deletes all Drawing Records of the room and then broadcasts
  a clear directive to the members. The store call is the one the sources give for
  clearing, \<open>chat.deleteMany\<close> with the \<open>roomId\<close> alone. A failure of the store
  aborts the operation: no broadcast is sent, and the failure is reported back to the
  originating connection only, as an operation-failed notice; the failure is dealt with
  there, so the handler's promise is not rejected. \<open>origin\<close> is the socket the message
  came in on.
\<close>

definition clear_canvas_handler ::
  "(string \<Rightarrow> int option) \<Rightarrow> relay_state \<Rightarrow> WebSocket \<Rightarrow> string \<Rightarrow> reaction" where
  "clear_canvas_handler toNumber st origin roomId =
     (case chat_deleteMany (prismaClient st) (toNumber roomId) None of
        Inl e \<Rightarrow> \<lparr>after = st, sent = [(origin, operation_failed)], failure = None\<rparr>
      | Inr d \<Rightarrow>
          \<lparr>after = st\<lparr>prismaClient := d\<rparr>,
           sent = broadcast (users st) roomId (clear_canvas roomId),
           failure = None\<rparr>)"

text \<open>
  Modelled from the spec: the \<open>join_room\<close> branch, which is not among the sources.
  \<open>join(connection, roomId)\<close> adds the connection to the room's set; joining again
  adds no second entry. The room is appended to the \<open>rooms\<close> of the entry of the
  connection \<open>c\<close> unless it is there already.
\<close>

definition join :: "relay_state \<Rightarrow> nat \<Rightarrow> string \<Rightarrow> relay_state" where
  "join st c roomId =
     st\<lparr>users := map (\<lambda>u. if sock (ws u) = c \<and> roomId \<notin> set (rooms u)
                              then u\<lparr>rooms := rooms u @ [roomId]\<rparr> else u)
                      (users st)\<rparr>"



subsection \<open>The listener and the runtime\<close>

text \<open>
  The handler is an async function registered with \<open>ws.on('message', ...)\<close>. Nothing
  awaits the promise it returns and the handler has no \<open>try\<close>, so when an awaited store
  call is rejected the promise is rejected with nobody handling it. What follows is the
  policy of the runtime for unhandled rejections (\<open>--unhandled-rejections\<close>); the
  sources install no hook for them. With \<open>throw\<close>, the default, and with \<open>strict\<close>
  the rejection is raised as an uncaught exception and the process ends, which closes
  every connection. With \<open>warn\<close>, \<open>warn-with-error-code\<close> and \<open>none\<close> the process goes
  on.
\<close>

datatype unhandled_rejections =
  throw_mode | strict_mode | warn_mode | warn_with_error_code_mode | none_mode

datatype process = Running relay_state | Exited

definition message_listener ::
  "unhandled_rejections \<Rightarrow> reaction \<Rightarrow> process \<times> (WebSocket \<times> envelope) list" where
  "message_listener mode r =
     (if failure r \<noteq> None \<and> (mode = throw_mode \<or> mode = strict_mode) then Exited
      else Running (after r),
      sent r)"

text \<open>The connections that a process holds.\<close>

definition connections :: "process \<Rightarrow> user list" where
  "connections p = (case p of Running st \<Rightarrow> users st | Exited \<Rightarrow> [])"

subsection \<open>The client's shapes\<close>

text \<open>
  A shape on a client: its identifier, its kind, and the text of its remaining members
  as \<open>JSON.stringify\<close> writes them, each with its leading comma (for a circle
  \<open>,"centerX":100,"centerY":100,"radius":50\<close>).
\<close>

record shape =
  shape_id :: string
  shape_type :: string
  geometry :: string



text \<open>
  The text of a string in JSON: quotation marks around it, with a backslash before a
  quotation mark or a backslash and with the control characters escaped. A string is
  the sequence of its bytes in UTF-8; bytes above the ASCII range stand as they are.
\<close>

definition hex_digit :: "nat \<Rightarrow> char" where
  "hex_digit d = ''0123456789abcdef'' ! d"

definition QuoteJSONChar :: "char \<Rightarrow> string" where
  "QuoteJSONChar c =
     (let k = (of_char c :: nat) in
      if k = 0x22 then [CHR 0x5C, CHR 0x22]
      else if k = 0x5C then [CHR 0x5C, CHR 0x5C]
      else if k = 0x08 then [CHR 0x5C, CHR ''b'']
      else if k = 0x09 then [CHR 0x5C, CHR ''t'']
      else if k = 0x0A then [CHR 0x5C, CHR ''n'']
      else if k = 0x0C then [CHR 0x5C, CHR ''f'']
      else if k = 0x0D then [CHR 0x5C, CHR ''r'']
      else if k < 0x20 then [CHR 0x5C, CHR ''u'', CHR ''0'', CHR ''0'',
                             hex_digit (k div 16), hex_digit (k mod 16)]
      else [c])"

definition QuoteJSONString :: "string \<Rightarrow> string" where
  "QuoteJSONString s = [CHR 0x22] @ concat (map QuoteJSONChar s) @ [CHR 0x22]"

text \<open>\<open>JSON.stringify({ shape })\<close>, the payload of a \<open>chat\<close> message.\<close>

definition stringify_shape :: "shape \<Rightarrow> string" where
  \<open>stringify_shape sh =
     ''{"shape":{"id":'' @ QuoteJSONString (shape_id sh) @
     '',"type":'' @ QuoteJSONString (shape_type sh) @ geometry sh @ ''}}''\<close>


text \<open>
  An identifier that JSON writes as it stands, none of its characters being escaped.
  The identifiers that \<open>generateShapeId\<close> makes are of this kind.
\<close>

definition plain_identifier :: "string \<Rightarrow> bool" where
  "plain_identifier s = list_all (\<lambda>c. QuoteJSONChar c = [c]) s"

subsection \<open>An example relay\<close>

text \<open>
  Two connections that have joined room \<open>1\<close>, a third that has joined room \<open>2\<close>, and
  an empty store. \<open>decimalNumber\<close> reads a room identifier written in decimal digits;
  \<open>Number\<close> reads such an identifier the same way.
\<close>

definition digit_of :: "char \<Rightarrow> int option" where
  "digit_of c =
     (let k = (of_char c :: int) in if 48 \<le> k \<and> k \<le> 57 then Some (k - 48) else None)"

fun decimal_value :: "int \<Rightarrow> string \<Rightarrow> int option" where
  "decimal_value acc [] = Some acc"
| "decimal_value acc (c # cs) =
     (case digit_of c of None \<Rightarrow> None | Some d \<Rightarrow> decimal_value (10 * acc + d) cs)"

definition decimalNumber :: "string \<Rightarrow> int option" where
  "decimalNumber s = (if s = [] then None else decimal_value 0 s)"

definition conn1 :: user where
  "conn1 = \<lparr>ws = \<lparr>sock = 1, readyState = OPEN\<rparr>, rooms = [''1''], userId = ''alice''\<rparr>"

definition conn2 :: user where
  "conn2 = \<lparr>ws = \<lparr>sock = 2, readyState = OPEN\<rparr>, rooms = [''1''], userId = ''bob''\<rparr>"

definition conn3 :: user where
  "conn3 = \<lparr>ws = \<lparr>sock = 3, readyState = OPEN\<rparr>, rooms = [''2''], userId = ''carol''\<rparr>"

definition empty_store :: database where
  "empty_store = \<lparr>chat_rows = [], nextId = 1, available = True\<rparr>"

definition relay0 :: relay_state where
  "relay0 = \<lparr>users = [conn1, conn2, conn3], prismaClient = empty_store\<rparr>"

text \<open>A circle as a client draws it, and the example relay with connection 2 closed.\<close>

definition circle_s1 :: shape where
  \<open>circle_s1 = \<lparr>shape_id = ''s1'', shape_type = ''circle'',
                 geometry = '',"centerX":100,"centerY":100,"radius":50''\<rparr>\<close>



definition relay_store_down :: relay_state where
  "relay_store_down = \<lparr>users = [conn1, conn2, conn3], prismaClient = empty_store\<lparr>available := False\<rparr>\<rparr>"

text \<open>
  The example relay after connection 1 has drawn five circles \<open>s1\<close> to \<open>s5\<close> in room
  \<open>1\<close>, and a store that holds a circle \<open>s1\<close> and a circle \<open>s12\<close> of room \<open>1\<close> and a
  circle \<open>s1\<close> of room \<open>2\<close>.
\<close>

definition after_five_draws :: relay_state where
  "after_five_draws =
     foldl (\<lambda>st i. after (chat_handler decimalNumber st ''alice''
                          (stringify_shape (circle_s1\<lparr>shape_id := i\<rparr>)) ''1''))
       relay0 [''s1'', ''s2'', ''s3'', ''s4'', ''s5'']"


section \<open>Properties of the canvas listeners\<close>

lemma in_addEventListener:
  "l \<in> set (addEventListener c t h) \<longleftrightarrow> l = (t, h) \<or> l \<in> set c"
  by (auto simp: addEventListener_def)

lemma distinct_addEventListener:
  "distinct c \<Longrightarrow> distinct (addEventListener c t h)"
  by (simp add: addEventListener_def)

lemma distinct_removeEventListener:
  "distinct c \<Longrightarrow> distinct (removeEventListener c t h)"
  by (simp add: removeEventListener_def)

lemma in_removeEventListener:
  "distinct c \<Longrightarrow> l \<in> set (removeEventListener c t h) \<longleftrightarrow> l \<noteq> (t, h) \<and> l \<in> set c"
  by (auto simp: removeEventListener_def)

lemma in_dispatchEvent:
  "h \<in> set (dispatchEvent c t) \<longleftrightarrow> (t, h) \<in> set c"
  by (force simp: dispatchEvent_def)

lemma in_initZoomAndPan:
  assumes "distinct c"
  shows "l \<in> set (initZoomAndPan c) \<longleftrightarrow>
           l = (''touchend'', touchEndHandler) \<or>
           (l \<noteq> (''touchstart'', touchStartHandler) \<and> l \<noteq> (''touchmove'', touchMoveHandler) \<and>
            (l = (''wheel'', wheelHandler) \<or> l \<in> set c))"
  using assms
  by (auto simp: initZoomAndPan_def Let_def in_addEventListener in_removeEventListener
      distinct_addEventListener distinct_removeEventListener)

text \<open>
  C10. After \<open>initZoomAndPan\<close> the canvas has the wheel and the touchend handler
  registered and neither the touchstart nor the touchmove handler: both were added and
  removed again in the same call. A touchstart or touchmove event is therefore not
  dispatched to its handler. (The listener list of an event target holds no pair twice.)
\<close>

theorem initZoomAndPan_touch_unregistered:
  assumes "distinct c"
  shows "(''wheel'', wheelHandler) \<in> set (initZoomAndPan c) \<and>
         (''touchend'', touchEndHandler) \<in> set (initZoomAndPan c) \<and>
         (''touchstart'', touchStartHandler) \<notin> set (initZoomAndPan c) \<and>
         (''touchmove'', touchMoveHandler) \<notin> set (initZoomAndPan c) \<and>
         touchStartHandler \<notin> set (dispatchEvent (initZoomAndPan c) ''touchstart'') \<and>
         touchMoveHandler \<notin> set (dispatchEvent (initZoomAndPan c) ''touchmove'') \<and>
         wheelHandler \<in> set (dispatchEvent (initZoomAndPan c) ''wheel'') \<and>
         touchEndHandler \<in> set (dispatchEvent (initZoomAndPan c) ''touchend'')"
  using assms by (simp add: in_dispatchEvent in_initZoomAndPan)

theorem initZoomAndPan_touch_unregistered_witness:
  "distinct ([] :: canvas) \<and>
   initZoomAndPan [] = [(''wheel'', wheelHandler), (''touchend'', touchEndHandler)] \<and>
   dispatchEvent (initZoomAndPan []) ''touchstart'' = [] \<and>
   dispatchEvent (initZoomAndPan []) ''touchmove'' = [] \<and>
   touchStartHandler \<notin> set (dispatchEvent (initZoomAndPan []) ''touchstart'') \<and>
   touchMoveHandler \<notin> set (dispatchEvent (initZoomAndPan []) ''touchmove'')"
  using initZoomAndPan_touch_unregistered [of "[]"]
  by (simp add: initZoomAndPan_def addEventListener_def removeEventListener_def
      dispatchEvent_def)

section \<open>Properties of the shape identifiers\<close>

lemma length_substr: "length (substr s start len) = min len (length s - start)"
  by (simp add: substr_def)

lemma radix36_suffix_digits:
  "radix36_fraction r \<Longrightarrow> list_all base36_digit (substr r 2 9)"
  unfolding radix36_fraction_def substr_def
  by (auto simp: list_all_iff dest: in_set_takeD)

text \<open>
  C9, as the code has it. The identifier is \<open>shape_\<close>, the millisecond clock reading in
  decimal, an underscore, and a random suffix of base-36 digits. The suffix is the
  text of the random number from its third character on, cut after nine characters: it
  has at most nine characters, and exactly nine only when the text has eleven or more.
\<close>

theorem generateShapeId_suffix_at_most_nine:
  assumes "radix36_fraction r"
  shows "\<exists>sfx. generateShapeId now r = ''shape_'' @ decimal now @ ''_'' @ sfx \<and>
               sfx = take 9 (drop 2 r) \<and>
               list_all base36_digit sfx \<and>
               length sfx = min 9 (length r - 2) \<and>
               length sfx \<le> 9 \<and>
               (length sfx = 9 \<longleftrightarrow> 11 \<le> length r)"
proof -
  have "list_all base36_digit (take 9 (drop 2 r))"
    using radix36_suffix_digits [OF assms] by (simp add: substr_def)
  moreover have "length (take 9 (drop 2 r)) = 9 \<longleftrightarrow> 11 \<le> length r"
    by auto
  ultimately show ?thesis
    by (simp add: generateShapeId_def substr_def)
qed

theorem generateShapeId_suffix_at_most_nine_witness:
  "radix36_fraction ''0.4fzyo82mvyr'' \<and>
   generateShapeId 1641234567000 ''0.4fzyo82mvyr'' = ''shape_1641234567000_4fzyo82mv''"
proof -
  have r: "radix36_fraction ''0.4fzyo82mvyr''"
    by (simp add: radix36_fraction_def base36_digit_def)
  have d: "decimal 1641234567000 = ''1641234567000''"
    by (simp add: decimal.simps digit_def)
  from generateShapeId_suffix_at_most_nine [OF r, of 1641234567000] d r
  show ?thesis by auto
qed

text \<open>
  The suffix has no fixed length: at the same clock reading, the random numbers one half
  and one eighth give suffixes of one and of two characters.
\<close>

theorem generateShapeId_suffix_length_varies:
  "generateShapeId 1641234567000 ''0.i'' = ''shape_1641234567000_i'' \<and>
   generateShapeId 1641234567000 ''0.4i'' = ''shape_1641234567000_4i'' \<and>
   length (substr ''0.i'' 2 9) \<noteq> length (substr ''0.4i'' 2 9)"
proof -
  have d: "decimal 1641234567000 = ''1641234567000''"
    by (simp add: decimal.simps digit_def)
  show ?thesis
    by (simp add: generateShapeId_def substr_def d)
qed

section \<open>Properties of the store calls\<close>





lemma like_tokens_plain_char:
  "p \<noteq> CHR 0x5C \<Longrightarrow> like_tokens (p # rest) = map_option (Cons (like_token_of p)) (like_tokens rest)"
  by (cases rest) simp_all

lemma like_tokens_literal:
  "wildcard_free p \<Longrightarrow> like_tokens (p @ rest) = map_option (\<lambda>ts. map Literal p @ ts) (like_tokens rest)"
proof (induction p)
  case Nil
  then show ?case by (simp add: option.map_ident)
next
  case (Cons a p)
  then have a: "a \<noteq> CHR 0x5C" "like_token_of a = Literal a" and p: "wildcard_free p"
    by (simp_all add: wildcard_free_def like_token_of_def)
  from Cons.IH [OF p] a show ?case
    by (simp add: like_tokens_plain_char option.map_comp comp_def del: like_tokens.simps)
qed



lemma like_tokens_closing:
  "q \<noteq> CHR 0x5C \<Longrightarrow> \<exists>ts. like_tokens (s @ [q, CHR ''%'']) = Some ts"
proof (induction s rule: like_tokens.induct)
  case 1
  then show ?case by simp
next
  case (2 p)
  then show ?case by simp
next
  case (3 p r rs)
  then show ?case by (cases "p = CHR 0x5C") auto
qed

lemma chat_create_available:
  "available d \<Longrightarrow>
   chat_create d (Some n) msg uid =
     Inr (d\<lparr>chat_rows := chat_rows d @
               [\<lparr>chat_id = nextId d, chat_roomId = n, chat_message = msg, chat_userId = uid\<rparr>],
             nextId := nextId d + 1\<rparr>)"
  by (simp add: chat_create_def)

lemma chat_create_unavailable:
  "\<not> available d \<Longrightarrow>
   chat_create d rid msg uid =
     Inl (case rid of None \<Rightarrow> ValidationError | Some n \<Rightarrow> StoreUnavailable)"
  by (simp add: chat_create_def split: option.splits)

lemma chat_deleteMany_available:
  "available d \<Longrightarrow>
   chat_deleteMany d (Some n) pat =
     Inr (d\<lparr>chat_rows :=
               filter (\<lambda>r. \<not> (chat_roomId r = n \<and>
                               (case pat of None \<Rightarrow> True
                                | Some p \<Rightarrow> like (chat_message r) (''%'' @ p @ ''%''))))
                 (chat_rows d)\<rparr>)"
  by (simp add: chat_deleteMany_def)

lemma chat_deleteMany_unavailable:
  "\<not> available d \<Longrightarrow>
   chat_deleteMany d rid pat =
     Inl (case rid of None \<Rightarrow> ValidationError | Some n \<Rightarrow> StoreUnavailable)"
  by (simp add: chat_deleteMany_def split: option.splits)

section \<open>Properties of the handlers\<close>

lemma forEach_open:
  "concat (map (\<lambda>u. if P u then [f u] else []) us) = map f (filter P us)"
  by (induction us) auto

lemma chat_handler_available:
  assumes "toNumber roomId = Some n" and "available (prismaClient st)"
  shows "chat_handler toNumber st uid message roomId =
           \<lparr>after = st\<lparr>prismaClient := (prismaClient st)
                      \<lparr>chat_rows := chat_rows (prismaClient st) @
                         [\<lparr>chat_id = nextId (prismaClient st), chat_roomId = n,
                           chat_message = message, chat_userId = uid\<rparr>],
                       nextId := nextId (prismaClient st) + 1\<rparr>\<rparr>,
            sent = broadcast (users st) roomId (chat message roomId),
            failure = None\<rparr>"
  using assms
  by (simp add: chat_handler_def chat_create_available forEach_open broadcast_def)

lemma chat_handler_unavailable:
  assumes "\<not> available (prismaClient st)"
  shows "chat_handler toNumber st uid message roomId =
           \<lparr>after = st, sent = [],
            failure = Some (case toNumber roomId of None \<Rightarrow> ValidationError
                            | Some n \<Rightarrow> StoreUnavailable)\<rparr>"
  using assms by (simp add: chat_handler_def chat_create_unavailable)


lemma delete_shape_handler_unavailable:
  assumes "\<not> available (prismaClient st)"
  shows "delete_shape_handler toNumber st shapeId roomId =
           \<lparr>after = st, sent = [],
            failure = Some (case toNumber roomId of None \<Rightarrow> ValidationError
                            | Some n \<Rightarrow> StoreUnavailable)\<rparr>"
  using assms by (simp add: delete_shape_handler_def chat_deleteMany_unavailable)

lemma clear_canvas_handler_available:
  assumes "toNumber roomId = Some n" and "available (prismaClient st)"
  shows "clear_canvas_handler toNumber st origin roomId =
           \<lparr>after = st\<lparr>prismaClient := (prismaClient st)
                      \<lparr>chat_rows := filter (\<lambda>r. chat_roomId r \<noteq> n)
                                      (chat_rows (prismaClient st))\<rparr>\<rparr>,
            sent = broadcast (users st) roomId (clear_canvas roomId),
            failure = None\<rparr>"
  using assms
  by (simp add: clear_canvas_handler_def chat_deleteMany_available)

lemma clear_canvas_handler_unavailable:
  assumes "\<not> available (prismaClient st)"
  shows "clear_canvas_handler toNumber st origin roomId =
           \<lparr>after = st, sent = [(origin, operation_failed)], failure = None\<rparr>"
  using assms by (simp add: clear_canvas_handler_def chat_deleteMany_unavailable)

lemma in_broadcast:
  "(w, f) \<in> set (broadcast us roomId msg) \<longleftrightarrow>
     f = msg \<and> (\<exists>u \<in> set us. w = ws u \<and> roomId \<in> set (rooms u) \<and> readyState (ws u) = OPEN)"
  by (auto simp: broadcast_def usersInRoom_def)

lemma in_membersOf:
  "w \<in> membersOf us roomId \<longleftrightarrow> (\<exists>u \<in> set us. w = ws u \<and> roomId \<in> set (rooms u))"
  by (auto simp: membersOf_def usersInRoom_def)

lemma chat_handler_sent_subset:
  "set (sent (chat_handler toNumber st uid message roomId))
     \<subseteq> set (broadcast (users st) roomId (chat message roomId))"
  by (simp add: chat_handler_def forEach_open broadcast_def split: sum.splits)

lemma chat_handler_users:
  "users (after (chat_handler toNumber st uid message roomId)) = users st"
  by (simp add: chat_handler_def split: sum.splits)


lemma delete_shape_handler_sent_subset:
  "set (sent (delete_shape_handler toNumber st shapeId roomId))
     \<subseteq> (\<lambda>u. (ws u, delete_shape shapeId roomId)) ` set (usersInRoom (users st) roomId)"
  by (simp add: delete_shape_handler_def split: sum.splits)

lemma example_numbers:
  "decimalNumber ''1'' = Some 1" "decimalNumber ''2'' = Some 2"
  by (simp_all add: decimalNumber_def digit_of_def)

section \<open>Drawing: persist, then fan out\<close>

text \<open>
  C1. A \<open>chat\<close> message for room R, when the store takes the write: exactly one new row
  is appended to the table, with the room's number, the payload and the identity of the
  sender; the registry is untouched; the frame that goes out carries the payload of the
  message itself, and it goes to every member of R whose transport is open. The sender
  is not left out: when its own entry has joined R it is among the receivers.
\<close>

theorem chat_handler_persists_then_broadcasts:
  assumes "toNumber roomId = Some n" and "available (prismaClient st)"
  shows "failure (chat_handler toNumber st uid message roomId) = None \<and>
         chat_rows (prismaClient (after (chat_handler toNumber st uid message roomId))) =
           chat_rows (prismaClient st) @
             [\<lparr>chat_id = nextId (prismaClient st), chat_roomId = n,
               chat_message = message, chat_userId = uid\<rparr>] \<and>
         users (after (chat_handler toNumber st uid message roomId)) = users st \<and>
         sent (chat_handler toNumber st uid message roomId) =
           map (\<lambda>u. (ws u, chat message roomId))
             (filter (\<lambda>u. readyState (ws u) = OPEN) (usersInRoom (users st) roomId)) \<and>
         (\<forall>u \<in> set (users st).
            roomId \<in> set (rooms u) \<and> readyState (ws u) = OPEN \<longrightarrow>
            (ws u, chat message roomId) \<in> set (sent (chat_handler toNumber st uid message roomId))) \<and>
         (\<forall>s \<in> set (users st).
            userId s = uid \<and> roomId \<in> set (rooms s) \<and> readyState (ws s) = OPEN \<longrightarrow>
            (ws s, chat message roomId) \<in> set (sent (chat_handler toNumber st uid message roomId)))"
  unfolding chat_handler_available [of toNumber roomId n st, OF assms]
  by (auto simp: broadcast_def usersInRoom_def)

theorem chat_handler_persists_then_broadcasts_witness:
  "decimalNumber ''1'' = Some 1 \<and> available (prismaClient relay0) \<and>
   failure (chat_handler decimalNumber relay0 ''alice'' (stringify_shape circle_s1) ''1'') = None \<and>
   chat_rows (prismaClient
       (after (chat_handler decimalNumber relay0 ''alice'' (stringify_shape circle_s1) ''1''))) =
     [\<lparr>chat_id = 1, chat_roomId = 1, chat_message = stringify_shape circle_s1,
       chat_userId = ''alice''\<rparr>] \<and>
   sent (chat_handler decimalNumber relay0 ''alice'' (stringify_shape circle_s1) ''1'') =
     [(ws conn1, chat (stringify_shape circle_s1) ''1''),
      (ws conn2, chat (stringify_shape circle_s1) ''1'')]"
proof -
  have n: "decimalNumber ''1'' = Some 1"
    by (rule example_numbers)
  have a: "available (prismaClient relay0)"
    by (simp add: relay0_def empty_store_def)
  from chat_handler_persists_then_broadcasts [of decimalNumber "''1''" 1 relay0 "''alice''"
      "stringify_shape circle_s1", OF n a]
  show ?thesis
    using n a
    by (simp add: relay0_def empty_store_def usersInRoom_def conn1_def conn2_def conn3_def)
qed

section \<open>A failing store call\<close>

text \<open>
  C3, as the code has it. When the store call of a draw or a delete fails, the handler
  ends there: nothing is sent on any socket, neither a broadcast nor a notice to the
  connection the message came from, and the handler's promise is rejected with nobody
  handling it. Under the runtime's default policy for unhandled rejections (\<open>throw\<close>,
  and likewise \<open>strict\<close>) the relay process then ends, and with it every connection;
  under a policy that goes on (\<open>warn\<close>, \<open>warn-with-error-code\<close>, \<open>none\<close>) the relay keeps
  running with the registry and the store as they were. A clear whose store call fails
  is aborted with no broadcast, the originating connection alone gets the
  operation-failed notice, and the relay keeps running with its state as it was.
\<close>

theorem store_failure_unhandled:
  assumes "\<not> available (prismaClient st)"
  shows "sent (chat_handler toNumber st uid message roomId) = [] \<and>
         failure (chat_handler toNumber st uid message roomId) \<noteq> None \<and>
         sent (delete_shape_handler toNumber st shapeId roomId) = [] \<and>
         failure (delete_shape_handler toNumber st shapeId roomId) \<noteq> None \<and>
         (mode = throw_mode \<or> mode = strict_mode \<longrightarrow>
            message_listener mode (chat_handler toNumber st uid message roomId) = (Exited, []) \<and>
            message_listener mode (delete_shape_handler toNumber st shapeId roomId) = (Exited, []) \<and>
            connections (fst (message_listener mode
                                (chat_handler toNumber st uid message roomId))) = [] \<and>
            connections (fst (message_listener mode
                                (delete_shape_handler toNumber st shapeId roomId))) = []) \<and>
         (mode = warn_mode \<or> mode = warn_with_error_code_mode \<or> mode = none_mode \<longrightarrow>
            message_listener mode (chat_handler toNumber st uid message roomId) = (Running st, []) \<and>
            message_listener mode (delete_shape_handler toNumber st shapeId roomId) =
              (Running st, [])) \<and>
         sent (clear_canvas_handler toNumber st origin roomId) = [(origin, operation_failed)] \<and>
         message_listener mode (clear_canvas_handler toNumber st origin roomId) =
           (Running st, [(origin, operation_failed)])"
proof -
  note c = chat_handler_unavailable [OF assms, of toNumber uid message roomId]
  note d = delete_shape_handler_unavailable [OF assms, of toNumber shapeId roomId]
  note k = clear_canvas_handler_unavailable [OF assms, of toNumber origin roomId]
  have 1: "sent (chat_handler toNumber st uid message roomId) = []"
    "failure (chat_handler toNumber st uid message roomId) \<noteq> None"
    by (simp_all add: c)
  have 2: "sent (delete_shape_handler toNumber st shapeId roomId) = []"
    "failure (delete_shape_handler toNumber st shapeId roomId) \<noteq> None"
    by (simp_all add: d)
  have 3: "message_listener mode (chat_handler toNumber st uid message roomId) = (Exited, [])"
    "message_listener mode (delete_shape_handler toNumber st shapeId roomId) = (Exited, [])"
    if "mode = throw_mode \<or> mode = strict_mode"
    using that by (auto simp: message_listener_def c d)
  have 4: "message_listener mode (chat_handler toNumber st uid message roomId) = (Running st, [])"
    "message_listener mode (delete_shape_handler toNumber st shapeId roomId) = (Running st, [])"
    if "mode = warn_mode \<or> mode = warn_with_error_code_mode \<or> mode = none_mode"
    using that by (auto simp: message_listener_def c d)
  have 5: "sent (clear_canvas_handler toNumber st origin roomId) = [(origin, operation_failed)]"
    "message_listener mode (clear_canvas_handler toNumber st origin roomId) =
       (Running st, [(origin, operation_failed)])"
    by (simp_all add: message_listener_def k)
  have 6: "connections (fst (message_listener mode
                               (chat_handler toNumber st uid message roomId))) = []"
    "connections (fst (message_listener mode
                          (delete_shape_handler toNumber st shapeId roomId))) = []"
    if "mode = throw_mode \<or> mode = strict_mode"
    using 3 [OF that] by (simp_all add: connections_def)
  from 1 2 3 4 5 6 show ?thesis
    by blast
qed

theorem store_failure_unhandled_witness:
  "\<not> available (prismaClient relay_store_down) \<and>
   sent (delete_shape_handler decimalNumber relay_store_down ''s1'' ''1'') = [] \<and>
   failure (delete_shape_handler decimalNumber relay_store_down ''s1'' ''1'') = Some StoreUnavailable \<and>
   message_listener strict_mode (delete_shape_handler decimalNumber relay_store_down ''s1'' ''1'') =
     (Exited, []) \<and>
   message_listener warn_mode
       (chat_handler decimalNumber relay_store_down ''alice'' (stringify_shape circle_s1) ''1'') =
     (Running relay_store_down, []) \<and>
   message_listener throw_mode (clear_canvas_handler decimalNumber relay_store_down (ws conn1) ''1'') =
     (Running relay_store_down, [(ws conn1, operation_failed)])"
proof -
  have d: "\<not> available (prismaClient relay_store_down)"
    by (simp add: relay_store_down_def empty_store_def)
  have f: "failure (delete_shape_handler decimalNumber relay_store_down ''s1'' ''1'') =
             Some StoreUnavailable"
    by (simp add: delete_shape_handler_unavailable [OF d] example_numbers)
  from store_failure_unhandled [OF d, of decimalNumber _ _ "''1''" "''s1''" strict_mode]
  have s: "sent (delete_shape_handler decimalNumber relay_store_down ''s1'' ''1'') = []"
    "message_listener strict_mode (delete_shape_handler decimalNumber relay_store_down ''s1'' ''1'') =
       (Exited, [])"
    by blast+
  from store_failure_unhandled [OF d, of decimalNumber "''alice''" "stringify_shape circle_s1" "''1''"
      _ warn_mode]
  have w: "message_listener warn_mode
       (chat_handler decimalNumber relay_store_down ''alice'' (stringify_shape circle_s1) ''1'') =
     (Running relay_store_down, [])"
    by blast
  from store_failure_unhandled [OF d, of decimalNumber _ _ "''1''" _ throw_mode "ws conn1"]
  have k: "message_listener throw_mode
       (clear_canvas_handler decimalNumber relay_store_down (ws conn1) ''1'') =
     (Running relay_store_down, [(ws conn1, operation_failed)])"
    by blast
  from d f s w k show ?thesis
    by blast
qed

text \<open>
  The store is down, connection 1 (identity \<open>alice\<close>, member of room \<open>1\<close>, transport
  open) draws, and the runtime has its default policy: the call is rejected, no frame is
  sent, so no notice reaches connection 1, and the relay process ends, which leaves no
  connection.
\<close>

theorem store_failure_no_notice_and_exit:
  "failure (chat_handler decimalNumber relay_store_down ''alice'' (stringify_shape circle_s1) ''1'')
     = Some StoreUnavailable \<and>
   sent (chat_handler decimalNumber relay_store_down ''alice'' (stringify_shape circle_s1) ''1'') = [] \<and>
   message_listener throw_mode
     (chat_handler decimalNumber relay_store_down ''alice'' (stringify_shape circle_s1) ''1'') =
     (Exited, []) \<and>
   connections (fst (message_listener throw_mode
     (chat_handler decimalNumber relay_store_down ''alice'' (stringify_shape circle_s1) ''1''))) = []"
proof -
  have d: "\<not> available (prismaClient relay_store_down)"
    by (simp add: relay_store_down_def empty_store_def)
  show ?thesis
    by (simp add: chat_handler_unavailable [OF d] example_numbers message_listener_def
        connections_def)
qed

section \<open>Closed transports\<close>











section \<open>Room isolation\<close>

text \<open>
  C6. The sockets that a draw or a delete for room A is sent on are members of A. A
  connection whose only membership is another room B receives nothing of it.
\<close>

theorem room_isolation:
  "fst ` set (sent (chat_handler toNumber st uid message A)) \<subseteq> membersOf (users st) A \<and>
   fst ` set (sent (delete_shape_handler toNumber st shapeId A)) \<subseteq> membersOf (users st) A \<and>
   (\<forall>w. w \<in> membersOf (users st) B \<and> (\<forall>X. w \<in> membersOf (users st) X \<longrightarrow> X = B) \<and> B \<noteq> A \<longrightarrow>
        w \<notin> fst ` set (sent (chat_handler toNumber st uid message A)) \<and>
        w \<notin> fst ` set (sent (delete_shape_handler toNumber st shapeId A)))"
proof -
  have 1: "fst ` set (sent (chat_handler toNumber st uid message A)) \<subseteq> membersOf (users st) A"
  proof
    fix w
    assume "w \<in> fst ` set (sent (chat_handler toNumber st uid message A))"
    then obtain f where "(w, f) \<in> set (sent (chat_handler toNumber st uid message A))"
      by auto
    with chat_handler_sent_subset [of toNumber st uid message A]
    have "(w, f) \<in> set (broadcast (users st) A (chat message A))"
      by blast
    then show "w \<in> membersOf (users st) A"
      by (auto simp: in_broadcast in_membersOf)
  qed
  have 2: "fst ` set (sent (delete_shape_handler toNumber st shapeId A)) \<subseteq> membersOf (users st) A"
  proof
    fix w
    assume "w \<in> fst ` set (sent (delete_shape_handler toNumber st shapeId A))"
    then obtain f where "(w, f) \<in> set (sent (delete_shape_handler toNumber st shapeId A))"
      by auto
    with delete_shape_handler_sent_subset [of toNumber st shapeId A]
    have "(w, f) \<in> (\<lambda>u. (ws u, delete_shape shapeId A)) ` set (usersInRoom (users st) A)"
      by blast
    then show "w \<in> membersOf (users st) A"
      by (auto simp: membersOf_def)
  qed
  from 1 2 show ?thesis by blast
qed

theorem room_isolation_witness:
  "ws conn3 \<in> membersOf (users relay0) ''2'' \<and> ws conn3 \<notin> membersOf (users relay0) ''1'' \<and>
   ''2'' \<noteq> ''1'' \<and>
   ws conn3 \<notin> fst ` set (sent (chat_handler decimalNumber relay0 ''alice''
                               (stringify_shape circle_s1) ''1'')) \<and>
   ws conn3 \<notin> fst ` set (sent (delete_shape_handler decimalNumber relay0 ''s1'' ''1''))"
proof -
  have m: "ws conn3 \<in> membersOf (users relay0) ''2''"
    by (simp add: in_membersOf relay0_def conn3_def)
  have o: "\<forall>X. ws conn3 \<in> membersOf (users relay0) X \<longrightarrow> X = ''2''"
    by (auto simp: in_membersOf relay0_def conn1_def conn2_def conn3_def)
  have ne: "''2'' \<noteq> ''1''"
    by simp
  from o ne have nm: "ws conn3 \<notin> membersOf (users relay0) ''1''"
    by blast
  from room_isolation [of decimalNumber relay0 "''alice''" "stringify_shape circle_s1" "''1''"
      "''s1''" "''2''"] m o ne nm
  show ?thesis by blast
qed

section \<open>Clearing a room\<close>

text \<open>
  C7. A \<open>clear_canvas\<close> message for room R, when the store takes the call: no row of R
  is left in the table, the rows of other rooms are as before, and the clear directive
  is broadcast to the members of R, so that every member whose transport is open
  receives it.
\<close>

theorem clear_canvas_removes_all_then_broadcasts:
  assumes "toNumber roomId = Some n" and "available (prismaClient st)"
  shows "failure (clear_canvas_handler toNumber st origin roomId) = None \<and>
         filter (\<lambda>r. chat_roomId r = n)
           (chat_rows (prismaClient (after (clear_canvas_handler toNumber st origin roomId)))) = [] \<and>
         filter (\<lambda>r. chat_roomId r \<noteq> n)
           (chat_rows (prismaClient (after (clear_canvas_handler toNumber st origin roomId)))) =
         filter (\<lambda>r. chat_roomId r \<noteq> n) (chat_rows (prismaClient st)) \<and>
         users (after (clear_canvas_handler toNumber st origin roomId)) = users st \<and>
         sent (clear_canvas_handler toNumber st origin roomId) =
           broadcast (users st) roomId (clear_canvas roomId) \<and>
         (\<forall>u \<in> set (users st).
            roomId \<in> set (rooms u) \<and> readyState (ws u) = OPEN \<longrightarrow>
            (ws u, clear_canvas roomId) \<in> set (sent (clear_canvas_handler toNumber st origin roomId)))"
  unfolding clear_canvas_handler_available [of toNumber roomId n st origin, OF assms]
  by (auto simp: in_broadcast)

lemma after_five_draws_state:
  "users after_five_draws = [conn1, conn2, conn3]"
  "available (prismaClient after_five_draws)"
  "map chat_roomId (chat_rows (prismaClient after_five_draws)) = [1, 1, 1, 1, 1]"
  "map chat_id (chat_rows (prismaClient after_five_draws)) = [1, 2, 3, 4, 5]"
  by (simp_all add: after_five_draws_def chat_handler_def chat_create_def example_numbers
      relay0_def empty_store_def)

theorem clear_canvas_removes_all_then_broadcasts_witness:
  "decimalNumber ''1'' = Some 1 \<and> available (prismaClient after_five_draws) \<and>
   length (filter (\<lambda>r. chat_roomId r = 1) (chat_rows (prismaClient after_five_draws))) = 5 \<and>
   filter (\<lambda>r. chat_roomId r = 1)
     (chat_rows (prismaClient (after (clear_canvas_handler decimalNumber after_five_draws (ws conn1) ''1'')))) = [] \<and>
   sent (clear_canvas_handler decimalNumber after_five_draws (ws conn1) ''1'') =
     [(ws conn1, clear_canvas ''1''), (ws conn2, clear_canvas ''1'')]"
proof -
  have n: "decimalNumber ''1'' = Some 1"
    by (rule example_numbers)
  have a: "available (prismaClient after_five_draws)"
    by (rule after_five_draws_state)
  have "length (filter (\<lambda>r. chat_roomId r = 1) (chat_rows (prismaClient after_five_draws))) =
          length (filter (\<lambda>k. k = 1) (map chat_roomId (chat_rows (prismaClient after_five_draws))))"
    by (simp add: filter_map comp_def)
  then have five: "length (filter (\<lambda>r. chat_roomId r = 1)
                     (chat_rows (prismaClient after_five_draws))) = 5"
    by (simp add: after_five_draws_state)
  have b: "broadcast (users after_five_draws) ''1'' (clear_canvas ''1'') =
             [(ws conn1, clear_canvas ''1''), (ws conn2, clear_canvas ''1'')]"
    by (simp add: after_five_draws_state broadcast_def usersInRoom_def conn1_def conn2_def conn3_def)
  from clear_canvas_removes_all_then_broadcasts [of decimalNumber "''1''" 1 after_five_draws "ws conn1", OF n a]
    n a five b
  show ?thesis by simp
qed

section \<open>Deleting a shape\<close>




lemma base36_digit_plain: "base36_digit c \<Longrightarrow> QuoteJSONChar c = [c]"
  by (auto simp: base36_digit_def QuoteJSONChar_def Let_def)

lemma digit_plain:
  assumes "d < 10"
  shows "QuoteJSONChar (digit d) = [digit d]"
proof -
  have "\<forall>k \<in> set [0, 1, 2, 3, 4, 5, 6, 7, 8, 9 :: nat]. QuoteJSONChar (digit k) = [digit k]"
    by (simp add: digit_def QuoteJSONChar_def)
  moreover from assms have "d \<in> set [0, 1, 2, 3, 4, 5, 6, 7, 8, 9]"
    by auto
  ultimately show ?thesis
    by blast
qed

lemma decimal_plain: "plain_identifier (decimal n)"
proof (induction n rule: decimal.induct)
  case (1 n)
  show ?case
  proof (cases "n < 10")
    case True
    then show ?thesis
      by (simp add: decimal.simps [of n] plain_identifier_def digit_plain)
  next
    case False
    with 1 have "plain_identifier (decimal (n div 10))" by simp
    moreover have "QuoteJSONChar (digit (n mod 10)) = [digit (n mod 10)]"
      by (rule digit_plain) simp
    ultimately show ?thesis
      using False by (simp add: decimal.simps [of n] plain_identifier_def)
  qed
qed

lemma generateShapeId_plain:
  assumes "radix36_fraction r"
  shows "plain_identifier (generateShapeId now r)"
proof -
  have 1: "plain_identifier ''shape_''"
    by (simp add: plain_identifier_def QuoteJSONChar_def)
  have 2: "plain_identifier ''_''"
    by (simp add: plain_identifier_def QuoteJSONChar_def)
  have "list_all base36_digit (substr r 2 9)"
    using assms by (rule radix36_suffix_digits)
  then have 3: "plain_identifier (substr r 2 9)"
    by (simp add: plain_identifier_def list_all_iff base36_digit_plain)
  from 1 2 3 decimal_plain [of now] show ?thesis
    by (simp add: generateShapeId_def plain_identifier_def)
qed

lemma handler_pattern_accepted:
  \<open>\<exists>ts. like_tokens (''%'' @ (''"id":"'' @ shapeId @ ''"'') @ ''%'') =
          Some (AnySequence # map Literal ''"id":"'' @ ts)\<close>
proof -
  obtain ts where ts: \<open>like_tokens (shapeId @ [CHR 0x22, CHR ''%'']) = Some ts\<close>
    using like_tokens_closing [of "CHR 0x22" shapeId] by auto
  have w: \<open>wildcard_free ''"id":"''\<close>
    by (simp add: wildcard_free_def)
  have \<open>like_tokens (''%'' @ (''"id":"'' @ shapeId @ ''"'') @ ''%'') =
          map_option (Cons AnySequence) (like_tokens (''"id":"'' @ (shapeId @ [CHR 0x22, CHR ''%''])))\<close>
    by (simp add: like_tokens_plain_char like_token_of_def del: like_tokens.simps)
  also have \<open>\<dots> = Some (AnySequence # map Literal ''"id":"'' @ ts)\<close>
    unfolding like_tokens_literal [OF w] ts by simp
  finally show ?thesis by blast
qed

















section \<open>Joining a room\<close>

lemma count_list_map_filter_distinct:
  "distinct (map f xs) \<Longrightarrow> x \<in> set xs \<Longrightarrow> P x \<Longrightarrow> count_list (map f (filter P xs)) (f x) = 1"
proof (induction xs)
  case Nil
  then show ?case by simp
next
  case (Cons y ys)
  from Cons.prems(1) have fresh: "f y \<notin> f ` set ys" and dist: "distinct (map f ys)"
    by simp_all
  show ?case
  proof (cases "x = y")
    case True
    from fresh have "f y \<notin> set (map f (filter P ys))"
      by auto
    then have "count_list (map f (filter P ys)) (f y) = 0"
      by (simp add: count_list_0_iff)
    with True Cons.prems(3) show ?thesis by simp
  next
    case False
    with Cons.prems(2) have mem: "x \<in> set ys" by simp
    with fresh have "f y \<noteq> f x" by auto
    with Cons.IH [OF dist mem Cons.prems(3)] show ?thesis by simp
  qed
qed

lemma users_join:
  "users (join st c roomId) =
     map (\<lambda>u. if sock (ws u) = c \<and> roomId \<notin> set (rooms u)
               then u\<lparr>rooms := rooms u @ [roomId]\<rparr> else u) (users st)"
  by (simp add: join_def)

lemma prismaClient_join: "prismaClient (join st c roomId) = prismaClient st"
  by (simp add: join_def)

lemma ws_users_join: "map ws (users (join st c roomId)) = map ws (users st)"
  by (simp add: users_join)

lemma join_join: "join (join st c roomId) c roomId = join st c roomId"
proof -
  have "users (join (join st c roomId) c roomId) = users (join st c roomId)"
    by (simp add: users_join)
  then show ?thesis
    by (simp add: join_def)
qed

lemma join_already_member:
  assumes "\<forall>u \<in> set (users st). sock (ws u) = c \<longrightarrow> roomId \<in> set (rooms u)"
  shows "join st c roomId = st"
proof -
  have "map (\<lambda>u. if sock (ws u) = c \<and> roomId \<notin> set (rooms u)
                 then u\<lparr>rooms := rooms u @ [roomId]\<rparr> else u) (users st) = users st"
    using assms by (induction "users st") (auto simp: map_idI)
  then show ?thesis
    by (simp add: join_def)
qed

lemma joined_after_join:
  assumes "u \<in> set (users (join st c roomId))" and "sock (ws u) = c"
  shows "roomId \<in> set (rooms u)"
proof -
  from assms(1) obtain v where
    u: "u = (if sock (ws v) = c \<and> roomId \<notin> set (rooms v)
             then v\<lparr>rooms := rooms v @ [roomId]\<rparr> else v)"
    unfolding users_join set_map by (elim imageE)
  show ?thesis
  proof (cases "sock (ws v) = c \<and> roomId \<notin> set (rooms v)")
    case True
    with u have "u = v\<lparr>rooms := rooms v @ [roomId]\<rparr>" by simp
    then show ?thesis by simp
  next
    case False
    with u have "u = v" by simp
    with False assms(2) show ?thesis by simp
  qed
qed

lemma distinct_sockets_ws:
  assumes "distinct (map (\<lambda>u. sock (ws u)) us)"
  shows "distinct (map ws us)"
proof -
  from assms have d: "distinct us" and inj: "inj_on (\<lambda>u. sock (ws u)) (set us)"
    by (simp_all add: distinct_map)
  have "inj_on ws (set us)"
  proof (rule inj_onI)
    fix x y
    assume xy: "x \<in> set us" "y \<in> set us" and "ws x = ws y"
    then have "sock (ws x) = sock (ws y)"
      by simp
    with inj xy show "x = y"
      by (simp add: inj_on_def)
  qed
  with d show ?thesis
    by (simp add: distinct_map)
qed

text \<open>
  C5. Joining is idempotent. A \<open>join_room\<close> for a room that the connection has joined
  already leaves the registry as it is, so no second membership entry appears, and
  joining twice is the same as joining once. After a repeated join, a draw in the room
  is sent to that connection exactly once. (The registry holds every socket once.)
\<close>

theorem join_room_idempotent:
  assumes "distinct (map (\<lambda>u. sock (ws u)) (users st))"
  shows "join (join st c roomId) c roomId = join st c roomId \<and>
         ((\<forall>u \<in> set (users st). sock (ws u) = c \<longrightarrow> roomId \<in> set (rooms u)) \<longrightarrow>
          join st c roomId = st) \<and>
         (\<forall>u \<in> set (users (join (join st c roomId) c roomId)).
            sock (ws u) = c \<longrightarrow> roomId \<in> set (rooms u)) \<and>
         (toNumber roomId = Some n \<and> available (prismaClient st) \<longrightarrow>
          (\<forall>u \<in> set (users (join (join st c roomId) c roomId)).
             sock (ws u) = c \<and> readyState (ws u) = OPEN \<longrightarrow>
             count_list
               (map fst (sent (chat_handler toNumber (join (join st c roomId) c roomId)
                                 uid message roomId)))
               (ws u) = 1))"
proof -
  let ?st = "join st c roomId"
  have member: "\<forall>u \<in> set (users ?st). sock (ws u) = c \<longrightarrow> roomId \<in> set (rooms u)"
    by (blast intro: joined_after_join)
  have once: "count_list (map fst (sent (chat_handler toNumber ?st uid message roomId))) (ws u) = 1"
    if n: "toNumber roomId = Some n" and a: "available (prismaClient st)"
      and u: "u \<in> set (users ?st)" "sock (ws u) = c" "readyState (ws u) = OPEN"
    for u
  proof -
    from a have a': "available (prismaClient ?st)"
      by (simp add: prismaClient_join)
    from assms have "distinct (map ws (users st))"
      by (rule distinct_sockets_ws)
    then have d: "distinct (map ws (users ?st))"
      by (simp add: ws_users_join)
    from u member have r: "roomId \<in> set (rooms u) \<and> readyState (ws u) = OPEN"
      by blast
    have "map fst (sent (chat_handler toNumber ?st uid message roomId)) =
            map ws (filter (\<lambda>u. roomId \<in> set (rooms u) \<and> readyState (ws u) = OPEN) (users ?st))"
      unfolding chat_handler_available [of toNumber roomId n ?st, OF n a']
      by (simp add: broadcast_def usersInRoom_def comp_def)
    with count_list_map_filter_distinct [OF d u(1), of "\<lambda>u. roomId \<in> set (rooms u) \<and> readyState (ws u) = OPEN"] r
    show ?thesis by simp
  qed
  from member once join_already_member [of st c roomId] show ?thesis
    unfolding join_join by blast
qed

theorem join_room_idempotent_witness:
  "distinct (map (\<lambda>u. sock (ws u)) (users relay0)) \<and>
   join relay0 1 ''1'' = relay0 \<and>
   join (join relay0 3 ''1'') 3 ''1'' = join relay0 3 ''1'' \<and>
   count_list
     (map fst (sent (chat_handler decimalNumber (join (join relay0 3 ''1'') 3 ''1'') ''alice''
                       (stringify_shape circle_s1) ''1'')))
     (ws conn3) = 1"
proof -
  have d: "distinct (map (\<lambda>u. sock (ws u)) (users relay0))"
    by (simp add: relay0_def conn1_def conn2_def conn3_def)
  have n: "decimalNumber ''1'' = Some 1"
    by (rule example_numbers)
  have a: "available (prismaClient relay0)"
    by (simp add: relay0_def empty_store_def)
  have j1: "\<forall>u \<in> set (users relay0). sock (ws u) = 1 \<longrightarrow> ''1'' \<in> set (rooms u)"
    by (simp add: relay0_def conn1_def conn2_def conn3_def)
  have c3: "conn3\<lparr>rooms := [''2'', ''1'']\<rparr> \<in> set (users (join (join relay0 3 ''1'') 3 ''1''))"
    by (simp add: join_def relay0_def conn1_def conn2_def conn3_def)
  have c3': "sock (ws (conn3\<lparr>rooms := [''2'', ''1'']\<rparr>)) = 3"
    "readyState (ws (conn3\<lparr>rooms := [''2'', ''1'']\<rparr>)) = OPEN"
    "ws (conn3\<lparr>rooms := [''2'', ''1'']\<rparr>) = ws conn3"
    by (simp_all add: conn3_def)
  from join_room_idempotent [OF d, of 1 "''1''"] j1
  have first: "join relay0 1 ''1'' = relay0"
    by blast
  from join_room_idempotent [OF d, of 3 "''1''" decimalNumber 1 "''alice''" "stringify_shape circle_s1"]
    n a c3 c3'
  have second: "join (join relay0 3 ''1'') 3 ''1'' = join relay0 3 ''1''"
    "count_list
       (map fst (sent (chat_handler decimalNumber (join (join relay0 3 ''1'') 3 ''1'') ''alice''
                         (stringify_shape circle_s1) ''1'')))
       (ws conn3) = 1"
    by (blast, metis)
  from d first second show ?thesis by blast
qed

end
